theory Spec2Isabelle
  imports Main "HOL-Library.Sublist" "HOL-Library.AList"
begin

section \<open>Data model of the session package\<close>

text \<open>
  The Go program keeps \<^verbatim>\<open>*Session\<close> pointers in the manager's map and hands the same
  pointers to callers, so sessions live in an explicit store: a reference is a natural
  number, the store maps every reference to the struct it points to, and \<open>nextRef\<close> is
  the next unused reference (\<^verbatim>\<open>&Session{...}\<close> always yields a new object).
  The world also holds the part of the file system the package touches (the files, the
  directories, and the paths that cannot be removed) and the log of the interpreter
  processes that were started: the command line of each, and the content of the script
  file it was given.

  Instants (\<^verbatim>\<open>time.Time\<close>) are integers in nanoseconds; a \<^verbatim>\<open>time.Duration\<close> is a 64-bit
  number of nanoseconds, and \<^verbatim>\<open>Time.Sub\<close> saturates at the two ends of that range. Every
  operation runs under the mutex of its receiver; the model is sequential, one operation
  at a time. What the operating system, the clock, the UUID generator, the Go library and
  the Python interpreter do is not in the repository: each operation takes these answers
  as an argument.
\<close>

type_synonym path = string
type_synonym ref = nat
type_synonym time = int

record Session =
  ID :: string
  sessionDir :: path
  statePath :: path
  lastUsed :: time
  isRunning :: bool

record Manager =
  sessions :: "string \<rightharpoonup> ref"
  baseDir :: path

record world =
  heap :: "ref \<Rightarrow> Session"
  nextRef :: ref
  files :: "path \<rightharpoonup> string"
  dirs :: "path set"
  locked :: "path set"
  spawns :: "(string list \<times> string option) list"

datatype ctx_error = Canceled | DeadlineExceeded

datatype error =
    ErrSessionDir string
  | ErrSessionState string
  | ErrNotRunning
  | ErrScript string
  | ErrContext ctx_error
  | ErrRun string

text \<open>\<^verbatim>\<open>err.Error()\<close>: the message of each error value.\<close>

fun errText :: "error \<Rightarrow> string" where
  "errText (ErrSessionDir cause) = ''failed to create session directory: '' @ cause"
| "errText (ErrSessionState cause) = ''failed to initialize session state: '' @ cause"
| "errText ErrNotRunning = ''session is no longer running''"
| "errText (ErrScript cause) = ''failed to create execution script: '' @ cause"
| "errText (ErrContext DeadlineExceeded) = ''context deadline exceeded''"
| "errText (ErrContext Canceled) = ''context canceled''"
| "errText (ErrRun msg) = msg"

subsection \<open>File system\<close>

text \<open>
  \<^verbatim>\<open>filepath.Join\<close> of a directory and one element. The clean-up of the result
  (\<^verbatim>\<open>filepath.Clean\<close>) is not modelled: elements are joined as they are.
\<close>

definition Join :: "path \<Rightarrow> string \<Rightarrow> path" where
  "Join d e = d @ ''/'' @ e"

text \<open>A path is under a directory when it is the directory or lies below it.\<close>

definition under :: "path \<Rightarrow> path \<Rightarrow> bool" where
  "under d p = (p = d \<or> prefix (d @ ''/'') p)"

text \<open>
  \<^verbatim>\<open>os.MkdirAll\<close>, when it succeeds, leaves the directory in place (its ancestors are
  not tracked). \<^verbatim>\<open>os.Remove\<close> and \<^verbatim>\<open>os.RemoveAll\<close> can fail, and the package discards
  their errors: a path of \<open>locked\<close> that exists cannot be removed, and neither can a
  directory that still holds such a path. \<^verbatim>\<open>os.RemoveAll\<close> removes everything else
  under the directory.
\<close>

definition held :: "world \<Rightarrow> path \<Rightarrow> bool" where
  "held w p = (\<exists>q \<in> locked w. under p q \<and> (files w q \<noteq> None \<or> q \<in> dirs w))"

definition MkdirAll :: "path \<Rightarrow> world \<Rightarrow> world" where
  "MkdirAll d w = w\<lparr>dirs := insert d (dirs w)\<rparr>"

definition WriteFile :: "path \<Rightarrow> string \<Rightarrow> world \<Rightarrow> world" where
  "WriteFile p c w = w\<lparr>files := (files w)(p \<mapsto> c)\<rparr>"

definition Remove :: "path \<Rightarrow> world \<Rightarrow> world" where
  "Remove p w = (if p \<in> locked w then w else w\<lparr>files := (files w)(p := None)\<rparr>)"

definition RemoveAll :: "path \<Rightarrow> world \<Rightarrow> world" where
  "RemoveAll d w =
     w\<lparr>files := (\<lambda>p. if under d p \<and> \<not> held w p then None else files w p),
       dirs := Set.filter (\<lambda>p. \<not> (under d p \<and> \<not> held w p)) (dirs w)\<rparr>"

section \<open>Session manager\<close>

text \<open>
  The answers of the environment to one call of \<^verbatim>\<open>createNewSession\<close>: the value of
  \<^verbatim>\<open>uuid.New().String()\<close>, the error of \<^verbatim>\<open>os.MkdirAll\<close> and of \<^verbatim>\<open>os.WriteFile\<close>
  (\<open>None\<close> is success), and \<^verbatim>\<open>time.Now()\<close>.
\<close>

record create_env =
  uuid :: string
  mkdirErr :: "string option"
  writeErr :: "string option"
  created :: time

definition stateHeader :: string where
  "stateHeader = ''# Python session state file\<newline>''"


definition createNewSession ::
  "create_env \<Rightarrow> string \<Rightarrow> Manager \<Rightarrow> world \<Rightarrow> (error + ref) \<times> Manager \<times> world" where
  "createNewSession env providedID m w =
     (let sessionID = (if providedID = [] then uuid env else providedID);
          sDir = Join (baseDir m) sessionID
      in case mkdirErr env of
           Some cause \<Rightarrow> (Inl (ErrSessionDir cause), m, w)
         | None \<Rightarrow>
             let w1 = MkdirAll sDir w;
                 sPath = Join sDir ''session_state.py''
             in case writeErr env of
                  Some cause \<Rightarrow> (Inl (ErrSessionState cause), m, w1)
                | None \<Rightarrow>
                    let w2 = WriteFile sPath stateHeader w1;
                        session = \<lparr>ID = sessionID, sessionDir = sDir, statePath = sPath,
                                   lastUsed = created env, isRunning = True\<rparr>;
                        r = nextRef w2;
                        w3 = w2\<lparr>heap := (heap w2)(r := session), nextRef := Suc r\<rparr>
                    in (Inr r, m\<lparr>sessions := (sessions m)(sessionID \<mapsto> r)\<rparr>, w3))"

definition GetOrCreateSession ::
  "create_env \<Rightarrow> string \<Rightarrow> Manager \<Rightarrow> world \<Rightarrow> (error + ref) \<times> Manager \<times> world" where
  "GetOrCreateSession env sid m w =
     (case (if sid \<noteq> [] then sessions m sid else None) of
        Some r \<Rightarrow>
          if isRunning (heap w r) then (Inr r, m, w) else createNewSession env sid m w
      | None \<Rightarrow> createNewSession env sid m w)"

section \<open>Formatting\<close>

definition backslash :: char where
  "backslash = CHR 0x5C"

text \<open>Decimal digits of an integer, as the verb \<^verbatim>\<open>%d\<close> prints them.\<close>

function showNat :: "nat \<Rightarrow> string" where
  "showNat n =
     (if n < 10 then [''0123456789'' ! n]
      else showNat (n div 10) @ [''0123456789'' ! (n mod 10)])"
  by pat_completeness auto
termination
  by (relation "measure (\<lambda>n. n)") auto

definition showInt :: "int \<Rightarrow> string" where
  "showInt i = (if i < 0 then ''-'' @ showNat (nat (- i)) else showNat (nat i))"

text \<open>
  \<^verbatim>\<open>fmt.Sprintf\<close> for the verbs the package uses (\<^verbatim>\<open>%s\<close>, \<^verbatim>\<open>%q\<close>, \<^verbatim>\<open>%d\<close>) and
  \<^verbatim>\<open>%%\<close>; a verb applied to the wrong operand, or without one, prints the
  library's error marker. Operands left over are dropped (the library appends a marker
  for them; the package always passes as many operands as verbs). The verb \<^verbatim>\<open>%q\<close>
  applies \<^verbatim>\<open>strconv.Quote\<close> of the Go library, which is the first argument here.
\<close>

datatype arg = Str string | Num int

fun verb :: "(string \<Rightarrow> string) \<Rightarrow> char \<Rightarrow> arg \<Rightarrow> string" where
  "verb q c (Str s) =
     (if c = CHR ''s'' then s
      else if c = CHR ''q'' then q s
      else ''%!'' @ [c] @ ''(string='' @ s @ '')'')"
| "verb q c (Num n) =
     (if c = CHR ''d'' then showInt n
      else ''%!'' @ [c] @ ''(int64='' @ showInt n @ '')'')"

fun Sprintf :: "(string \<Rightarrow> string) \<Rightarrow> string \<Rightarrow> arg list \<Rightarrow> string" where
  "Sprintf q [] args = []"
| "Sprintf q [c] args = (if c = CHR ''%'' then ''%!(NOVERB)'' else [c])"
| "Sprintf q (c # v # cs) args =
     (if c \<noteq> CHR ''%'' then c # Sprintf q (v # cs) args
      else if v = CHR ''%'' then CHR ''%'' # Sprintf q cs args
      else (case args of
              [] \<Rightarrow> ''%!'' @ [v] @ ''(MISSING)'' @ Sprintf q cs []
            | a # rest \<Rightarrow> verb q v a @ Sprintf q cs rest))"

section \<open>The script handed to the interpreter\<close>

text \<open>The format string of \<^verbatim>\<open>ExecuteCode\<close>, line by line.\<close>

definition scriptFormat :: string where
  \<open>scriptFormat =
     ''\<newline>'' @
     ''# Import the session state\<newline>'' @
     ''try:\<newline>'' @
     ''    exec(open(%q).read())\<newline>'' @
     ''except Exception as e:\<newline>'' @
     ''    pass  # Ignore errors when loading state\<newline>'' @
     ''\<newline>'' @
     ''# Execute the provided code\<newline>'' @
     ''%s\<newline>'' @
     ''\<newline>'' @
     ''# Save important variables to session state\<newline>'' @
     ''import inspect, sys\<newline>'' @
     ''with open(%q, "w") as state_file:\<newline>'' @
     ''    state_file.write("# Python session state file'' @ [backslash] @ ''n")\<newline>'' @
     ''    for name, value in list(locals().items()):\<newline>'' @
     ''        if not name.startswith("_") and name != "state_file" and not inspect.ismodule(value):\<newline>'' @
     ''            try:\<newline>'' @
     ''                state_file.write("{} = {!r}'' @ [backslash] @ ''n".format(name, value))\<newline>'' @
     ''            except:\<newline>'' @
     ''                pass\<newline>''\<close>

definition scriptContent :: "(string \<Rightarrow> string) \<Rightarrow> path \<Rightarrow> string \<Rightarrow> string" where
  "scriptContent q sp code = Sprintf q scriptFormat [Str sp, Str code, Str sp]"

subsection \<open>The snapshot step of the script\<close>

text \<open>
  The last part of the script is Python, and what it writes is part of the package's
  behaviour. A Python value is modelled by what the step asks of it: whether it is a
  module, and what \<^verbatim>\<open>repr\<close> gives (\<open>NoRepr\<close> is a value whose \<^verbatim>\<open>repr\<close> raises).
  The top-level names are an association list in the order of the dictionary.
\<close>

datatype pyval = Data string | Module string | NoRepr | FileObject

fun ismodule :: "pyval \<Rightarrow> bool" where
  "ismodule (Module n) = True"
| "ismodule v = False"

fun repr :: "pyval \<Rightarrow> string option" where
  "repr (Data r) = Some r"
| "repr (Module n) = Some (''<module '' @ n @ ''>'')"
| "repr NoRepr = None"
| "repr FileObject = Some ''<_io.TextIOWrapper>''"

text \<open>
  \<^verbatim>\<open>locals()\<close> when the loop starts: the names bound when the caller's code ended,
  then \<^verbatim>\<open>import inspect, sys\<close> and \<^verbatim>\<open>with open(...) as state_file\<close> bind three names.
\<close>

definition snapshotLocals :: "(string \<times> pyval) list \<Rightarrow> (string \<times> pyval) list" where
  "snapshotLocals bound =
     AList.update ''state_file'' FileObject
       (AList.update ''sys'' (Module ''sys'')
          (AList.update ''inspect'' (Module ''inspect'') bound))"

text \<open>The body of the loop for one name: the line it writes, if any.\<close>

definition snapshotLine :: "string \<times> pyval \<Rightarrow> string option" where
  "snapshotLine b =
     (case b of (name, val) \<Rightarrow>
        if \<not> prefix ''_'' name \<and> name \<noteq> ''state_file'' \<and> \<not> ismodule val
        then (case repr val of
                Some text \<Rightarrow> Some (name @ '' = '' @ text @ ''\<newline>'')
              | None \<Rightarrow> None)
        else None)"

definition snapshotLines :: "(string \<times> pyval) list \<Rightarrow> string list" where
  "snapshotLines bound = List.map_filter snapshotLine (snapshotLocals bound)"

definition snapshotText :: "(string \<times> pyval) list \<Rightarrow> string" where
  "snapshotText bound = stateHeader @ concat (snapshotLines bound)"

section \<open>Session\<close>

text \<open>
  The first block of the script is \<^verbatim>\<open>try: exec(open(path).read())\<close> with
  \<^verbatim>\<open>except Exception as e: pass\<close>. How the \<^verbatim>\<open>exec\<close> of a state text ends is the
  interpreter's answer: it returns, it raises an exception of the class \<^verbatim>\<open>Exception\<close>
  (a syntax error in the text, an error raised by one of its lines), or it raises
  something that is not an \<^verbatim>\<open>Exception\<close> (\<^verbatim>\<open>SystemExit\<close>, which \<^verbatim>\<open>exit()\<close> raises).
\<close>

datatype exec_end = Returns | RaisesException | RaisesOther

text \<open>
  Whether cmd.Run started a process at all (it starts none when the context is already
  done or \<^verbatim>\<open>python3\<close> cannot be started), and how far a process that got past the first
  block went before it ended (by itself, by an uncaught exception, or killed at the
  deadline): it ended before the snapshot step opened the state file; inside the snapshot
  step, after the file was truncated and the given number of bytes of the new snapshot
  reached it; or at the end of the script.
\<close>

datatype progress = NotStarted | BeforeSnapshot | InSnapshot nat | Completed

text \<open>
  The answers of the environment to one call of \<^verbatim>\<open>ExecuteCode\<close>: the two readings of
  the clock, \<^verbatim>\<open>strconv.Quote\<close>, the error of writing the script, what the interpreter
  did (how \<^verbatim>\<open>exec\<close> ends on a state text, the progress of the process, the names bound
  when the caller's code ended, the two captured streams, the error of \<^verbatim>\<open>cmd.Run\<close>),
  and \<^verbatim>\<open>ctx.Err()\<close> after the run. The caller's code is taken not to write the session's
  files itself.
\<close>

record exec_env =
  started :: time
  stamp :: time
  quote :: "string \<Rightarrow> string"
  scriptErr :: "string option"
  execState :: "string \<Rightarrow> exec_end"
  progress :: progress
  bound :: "(string \<times> pyval) list"
  procStdout :: string
  procStderr :: string
  runErr :: "error option"
  ctxErr :: "ctx_error option"

text \<open>
  The first block of the script, on the content of the state file (\<open>None\<close> when the file
  is absent): whether the script goes on to the caller's code. When the file is absent
  \<^verbatim>\<open>open\<close> raises an \<^verbatim>\<open>OSError\<close>, which is an \<^verbatim>\<open>Exception\<close>. An \<^verbatim>\<open>Exception\<close> is
  caught and passed over; anything else is not caught, and the process ends there.
\<close>

definition reloadGoesOn :: "exec_env \<Rightarrow> string option \<Rightarrow> bool" where
  "reloadGoesOn env state =
     (case state of
        None \<Rightarrow> True
      | Some text \<Rightarrow>
          (case execState env text of
             Returns \<Rightarrow> True
           | RaisesException \<Rightarrow> True
           | RaisesOther \<Rightarrow> False))"

text \<open>How far the process got, for the content of the state file it read.\<close>

definition reached :: "exec_env \<Rightarrow> string option \<Rightarrow> progress" where
  "reached env state =
     (if progress env = NotStarted then NotStarted
      else if reloadGoesOn env state then progress env
      else BeforeSnapshot)"

text \<open>
  \<^verbatim>\<open>cmd.Run()\<close> of \<^verbatim>\<open>python3\<close> on the script, for a session with the given state file
  (the string literal that \<^verbatim>\<open>%q\<close> puts in the script is taken to name that file). A
  process that was started is logged; it reads the state file, and the state file is
  rewritten as far as the snapshot step got.
\<close>

definition python3 :: "exec_env \<Rightarrow> path \<Rightarrow> path \<Rightarrow> world \<Rightarrow> world" where
  "python3 env script sp w =
     (let w' = w\<lparr>spawns := spawns w @ [([''python3'', script], files w script)]\<rparr>
      in case reached env (files w sp) of
           NotStarted \<Rightarrow> w
         | BeforeSnapshot \<Rightarrow> w'
         | InSnapshot n \<Rightarrow> WriteFile sp (take n (snapshotText (bound env))) w'
         | Completed \<Rightarrow> WriteFile sp (snapshotText (bound env)) w')"

definition ExecuteCode ::
  "exec_env \<Rightarrow> ref \<Rightarrow> string \<Rightarrow> world \<Rightarrow> (string \<times> string \<times> error option) \<times> world" where
  "ExecuteCode env r code w =
     (let s = heap w r
      in if \<not> isRunning s then (([], [], Some ErrNotRunning), w)
         else
           let w1 = w\<lparr>heap := (heap w)(r := s\<lparr>lastUsed := started env\<rparr>)\<rparr>;
               tempScriptPath =
                 Join (sessionDir s) (Sprintf (quote env) ''exec_%d.py'' [Num (stamp env)]);
               content = scriptContent (quote env) (statePath s) code
           in case scriptErr env of
                Some cause \<Rightarrow> (([], [], Some (ErrScript cause)), w1)
              | None \<Rightarrow>
                  let w2 = WriteFile tempScriptPath content w1;
                      w3 = python3 env tempScriptPath (statePath s) w2;
                      w4 = Remove tempScriptPath w3
                  in if ctxErr env = Some DeadlineExceeded
                     then (([], [], Some (ErrContext DeadlineExceeded)), w4)
                     else ((procStdout env, procStderr env, runErr env), w4))"

definition Cleanup :: "ref \<Rightarrow> world \<Rightarrow> world" where
  "Cleanup r w =
     (let s = heap w r
      in if isRunning s
         then RemoveAll (sessionDir s) (w\<lparr>heap := (heap w)(r := s\<lparr>isRunning := False\<rparr>)\<rparr>)
         else w)"

text \<open>
  \<^verbatim>\<open>now.Sub(u)\<close>: the difference of two instants as a \<^verbatim>\<open>time.Duration\<close>, the largest
  or the smallest duration when the difference is out of the 64-bit range.
\<close>

definition maxDuration :: int where
  "maxDuration = 9223372036854775807"

definition minDuration :: int where
  "minDuration = - 9223372036854775808"

definition Sub :: "time \<Rightarrow> time \<Rightarrow> int" where
  "Sub t u =
     (if t - u > maxDuration then maxDuration
      else if t - u < minDuration then minDuration
      else t - u)"

text \<open>
  \<^verbatim>\<open>CleanupSessions\<close> ranges over the map in an order Go does not specify: the order is
  an argument, a list of the keys. A key that is no longer in the map is skipped.
\<close>

fun CleanupSessions ::
  "time \<Rightarrow> string list \<Rightarrow> time \<Rightarrow> Manager \<Rightarrow> world \<Rightarrow> Manager \<times> world" where
  "CleanupSessions now [] maxAge m w = (m, w)"
| "CleanupSessions now (k # ks) maxAge m w =
     (case sessions m k of
        None \<Rightarrow> CleanupSessions now ks maxAge m w
      | Some r \<Rightarrow>
          if Sub now (lastUsed (heap w r)) > maxAge
          then CleanupSessions now ks maxAge
                 (m\<lparr>sessions := (sessions m)(k := None)\<rparr>) (Cleanup r w)
          else CleanupSessions now ks maxAge m w)"

section \<open>Request handler\<close>

record RequestPayload =
  reqID :: string
  Code :: string

record ResponsePayload =
  respID :: string
  Stdout :: string
  Stderr :: string
  Error :: string

text \<open>
  What the handler writes: a plain body with a status (\<^verbatim>\<open>http.Error\<close>), or the JSON
  encoding of a \<^verbatim>\<open>ResponsePayload\<close> with status 200.
\<close>

datatype response = Plain nat string | Json ResponsePayload

definition sendErrorResponse :: "string \<Rightarrow> string \<Rightarrow> response" where
  "sendErrorResponse sessionID message =
     Json \<lparr>respID = sessionID, Stdout = [], Stderr = [], Error = message\<rparr>"

text \<open>
  The answers of the environment to one request: those of the two calls the handler
  makes, and \<^verbatim>\<open>ctx.Err()\<close> when the handler reads it after \<^verbatim>\<open>ExecuteCode\<close> returned.
  The request is its method and its decoded body (\<open>None\<close> when decoding fails).
\<close>

record handler_env =
  createEnv :: create_env
  execEnv :: exec_env
  handlerCtxErr :: "ctx_error option"

definition ExecuteHandler ::
  "handler_env \<Rightarrow> string \<Rightarrow> RequestPayload option \<Rightarrow> Manager \<Rightarrow> world
     \<Rightarrow> response \<times> Manager \<times> world" where
  \<open>ExecuteHandler env httpMethod body m w =
     (if httpMethod \<noteq> ''POST'' then (Plain 405 ''Invalid request method'', m, w)
      else case body of
             None \<Rightarrow> (Plain 400 ''{"error": "Invalid request payload"}'', m, w)
           | Some req \<Rightarrow>
               (case GetOrCreateSession (createEnv env) (reqID req) m w of
                  (Inl e, m1, w1) \<Rightarrow>
                    (sendErrorResponse [] ''Failed to initialize session'', m1, w1)
                | (Inr r, m1, w1) \<Rightarrow>
                    (case ExecuteCode (execEnv env) r (Code req) w1 of
                       ((stdout, stderr, err), w2) \<Rightarrow>
                         if handlerCtxErr env = Some DeadlineExceeded
                         then (sendErrorResponse (ID (heap w2 r)) ''execution timeout'', m1, w2)
                         else
                           let resp = \<lparr>respID = ID (heap w2 r), Stdout = stdout,
                                         Stderr = stderr, Error = []\<rparr>
                           in (case err of
                                 Some e \<Rightarrow>
                                   if stderr = []
                                   then (Json (resp\<lparr>Error := errText e, Stdout := [],
                                                     Stderr := []\<rparr>), m1, w2)
                                   else (Json resp, m1, w2)
                               | None \<Rightarrow> (Json resp, m1, w2)))))\<close>

section \<open>Sequences of operations\<close>

text \<open>
  The operations a program can apply to a manager and the sessions it was given. A
  caller holds only references that were allocated, so an operation on a session with
  another reference does nothing.
\<close>

datatype op =
    OpGetOrCreate create_env string
  | OpExecute exec_env ref string
  | OpCleanup ref
  | OpCleanupSessions time "string list" time
  | OpRequest handler_env string "RequestPayload option"

fun step :: "op \<Rightarrow> Manager \<times> world \<Rightarrow> Manager \<times> world" where
  "step (OpGetOrCreate env sid) (m, w) = snd (GetOrCreateSession env sid m w)"
| "step (OpExecute env r code) (m, w) =
     (if r < nextRef w then (m, snd (ExecuteCode env r code w)) else (m, w))"
| "step (OpCleanup r) (m, w) = (if r < nextRef w then (m, Cleanup r w) else (m, w))"
| "step (OpCleanupSessions now order maxAge) (m, w) = CleanupSessions now order maxAge m w"
| "step (OpRequest env httpMethod body) (m, w) = snd (ExecuteHandler env httpMethod body m w)"

fun run :: "op list \<Rightarrow> Manager \<times> world \<Rightarrow> Manager \<times> world" where
  "run [] st = st"
| "run (x # xs) st = run xs (step x st)"


text \<open>
  The world before the manager exists: no file, no session allocated, nothing that
  cannot be removed.
\<close>

definition emptySession :: Session where
  "emptySession = \<lparr>ID = [], sessionDir = [], statePath = [], lastUsed = 0, isRunning = False\<rparr>"

definition emptyWorld :: world where
  "emptyWorld = \<lparr>heap = (\<lambda>r. emptySession), nextRef = 0, files = Map.empty, dirs = {},
                  locked = {}, spawns = []\<rparr>"

section \<open>The parts of the script\<close>

text \<open>
  The text before the caller's code (the reload of the last snapshot, inside
  \<^verbatim>\<open>try\<close> / \<^verbatim>\<open>except Exception\<close>) and the text after it (the snapshot step), for a
  quoting function and a state file.
\<close>

definition reloadBlock :: "(string \<Rightarrow> string) \<Rightarrow> path \<Rightarrow> string" where
  \<open>reloadBlock q sp =
     ''\<newline>'' @
     ''# Import the session state\<newline>'' @
     ''try:\<newline>'' @
     ''    exec(open('' @ q sp @ '').read())\<newline>'' @
     ''except Exception as e:\<newline>'' @
     ''    pass  # Ignore errors when loading state\<newline>'' @
     ''\<newline>'' @
     ''# Execute the provided code\<newline>''\<close>

definition snapshotBlock :: "(string \<Rightarrow> string) \<Rightarrow> path \<Rightarrow> string" where
  \<open>snapshotBlock q sp =
     ''\<newline>'' @
     ''\<newline>'' @
     ''# Save important variables to session state\<newline>'' @
     ''import inspect, sys\<newline>'' @
     ''with open('' @ q sp @ '', "w") as state_file:\<newline>'' @
     ''    state_file.write("# Python session state file'' @ [backslash] @ ''n")\<newline>'' @
     ''    for name, value in list(locals().items()):\<newline>'' @
     ''        if not name.startswith("_") and name != "state_file" and not inspect.ismodule(value):\<newline>'' @
     ''            try:\<newline>'' @
     ''                state_file.write("{} = {!r}'' @ [backslash] @ ''n".format(name, value))\<newline>'' @
     ''            except:\<newline>'' @
     ''                pass\<newline>''\<close>

section \<open>The invariant of the map of sessions\<close>


section \<open>Example inputs\<close>

text \<open>Concrete managers, worlds and answers of the environment, used to instantiate the theorems.\<close>

definition exCreate :: create_env where
  "exCreate = \<lparr>uuid = ''u1'', mkdirErr = None, writeErr = None, created = 100\<rparr>"

definition exCreate2 :: create_env where
  "exCreate2 = \<lparr>uuid = ''u2'', mkdirErr = None, writeErr = None, created = 200\<rparr>"


definition exCreateFail :: create_env where
  "exCreateFail = \<lparr>uuid = ''u3'', mkdirErr = Some ''permission denied'', writeErr = None,
                    created = 300\<rparr>"

definition exManager :: Manager where
  "exManager = \<lparr>sessions = Map.empty, baseDir = ''/tmp/python-sessions''\<rparr>"

definition exSession :: Session where
  "exSession = \<lparr>ID = ''s1'', sessionDir = ''/tmp/python-sessions/s1'',
                  statePath = ''/tmp/python-sessions/s1/session_state.py'',
                  lastUsed = 100, isRunning = True\<rparr>"

definition exWorld :: world where
  "exWorld = \<lparr>heap = (\<lambda>r. emptySession)(0 := exSession), nextRef = 1,
               files = [''/tmp/python-sessions/s1/session_state.py'' \<mapsto> stateHeader],
               dirs = {''/tmp/python-sessions/s1''}, locked = {}, spawns = []\<rparr>"

definition exRegistry :: Manager where
  "exRegistry = \<lparr>sessions = [''s1'' \<mapsto> 0], baseDir = ''/tmp/python-sessions''\<rparr>"

definition exDeadWorld :: world where
  "exDeadWorld = exWorld\<lparr>heap := (heap exWorld)(0 := exSession\<lparr>isRunning := False\<rparr>)\<rparr>"

text \<open>The world \<open>exWorld\<close> where the state file of the session cannot be removed.\<close>

definition exLockedWorld :: world where
  "exLockedWorld = exWorld\<lparr>locked := {''/tmp/python-sessions/s1/session_state.py''}\<rparr>"

text \<open>
  The world \<open>exWorld\<close> where \<open>lastUsed\<close> of the session is the zero \<^verbatim>\<open>time.Time\<close>
  (January 1 of the year 1, in nanoseconds before 1970).
\<close>

definition exOldWorld :: world where
  "exOldWorld =
     exWorld\<lparr>heap := (heap exWorld)(0 := exSession\<lparr>lastUsed := - 62135596800000000000\<rparr>)\<rparr>"

text \<open>
  \<^verbatim>\<open>strconv.Quote\<close> on a text of printable ASCII characters without a double quote or a
  backslash, as the paths of the examples are.
\<close>

definition exQuote :: "string \<Rightarrow> string" where
  \<open>exQuote s = ''"'' @ s @ ''"''\<close>

text \<open>
  An interpreter for which the \<^verbatim>\<open>exec\<close> of a state text returns, except that of the
  text with the line \<^verbatim>\<open>a = exit(3)\<close>, which raises \<^verbatim>\<open>SystemExit\<close>.
\<close>

definition exExec :: "string \<Rightarrow> exec_end" where
  "exExec text =
     (if text = ''# Python session state file\<newline>a = exit(3)\<newline>'' then RaisesOther
      else Returns)"

definition exTimeout :: exec_env where
  "exTimeout = \<lparr>started = 150, stamp = 151, quote = exQuote, scriptErr = None,
                 execState = exExec, progress = InSnapshot 0,
                 bound = [(''x'', Data ''42'')], procStdout = ''partial'', procStderr = [],
                 runErr = Some (ErrRun ''signal: killed''), ctxErr = Some DeadlineExceeded\<rparr>"

definition exNameError :: exec_env where
  "exNameError = \<lparr>started = 160, stamp = 161, quote = exQuote, scriptErr = None,
                   execState = exExec, progress = BeforeSnapshot,
                   bound = [], procStdout = [],
                   procStderr = ''NameError: name y is not defined'',
                   runErr = Some (ErrRun ''exit status 1''), ctxErr = None\<rparr>"

definition exExit :: exec_env where
  "exExit = \<lparr>started = 170, stamp = 171, quote = exQuote, scriptErr = None,
              execState = exExec, progress = BeforeSnapshot,
              bound = [], procStdout = ''partial'', procStderr = [],
              runErr = Some (ErrRun ''exit status 3''), ctxErr = None\<rparr>"

definition exRequest :: RequestPayload where
  "exRequest = \<lparr>reqID = ''s1'', Code = ''import os; print(1); os._exit(3)''\<rparr>"

definition exHandlerEnv :: handler_env where
  "exHandlerEnv = \<lparr>createEnv = exCreate2, execEnv = exExit, handlerCtxErr = None\<rparr>"





section \<open>Creation of sessions\<close>

lemma createNewSession_ok:
  assumes "mkdirErr env = None" and "writeErr env = None"
  shows "createNewSession env sid m w =
           (let k = (if sid = [] then uuid env else sid);
                d = Join (baseDir m) k;
                p = Join d ''session_state.py''
            in (Inr (nextRef w),
                m\<lparr>sessions := (sessions m)(k \<mapsto> nextRef w)\<rparr>,
                w\<lparr>dirs := insert d (dirs w),
                  files := (files w)(p \<mapsto> stateHeader),
                  heap := (heap w)(nextRef w := \<lparr>ID = k, sessionDir = d, statePath = p,
                                                lastUsed = created env, isRunning = True\<rparr>),
                  nextRef := Suc (nextRef w)\<rparr>))"
  using assms by (simp add: createNewSession_def Let_def MkdirAll_def WriteFile_def)

lemma createNewSession_fail:
  assumes "createNewSession env sid m w = (Inl e, m', w')"
  shows "m' = m \<and> heap w' = heap w \<and> nextRef w' = nextRef w \<and> files w' = files w
         \<and> (mkdirErr env \<noteq> None \<or> writeErr env \<noteq> None)"
  using assms
  by (auto simp: createNewSession_def Let_def MkdirAll_def WriteFile_def split: option.splits)

lemma createNewSession_fail_iff:
  "(\<exists>e m' w'. createNewSession env sid m w = (Inl e, m', w'))
     \<longleftrightarrow> (mkdirErr env \<noteq> None \<or> writeErr env \<noteq> None)"
  by (auto simp: createNewSession_def Let_def split: option.splits)

text \<open>
  Claim C8. When the session directory or the initial state file cannot be created,
  \<^verbatim>\<open>GetOrCreateSession\<close> returns an error and no session, and the manager (its map of
  sessions) is the one before the call; no session is allocated either. The second part
  says that a storage failure does give this result whenever a session has to be built
  (empty id, or no live session under the id).
\<close>

theorem C8_failed_creation_keeps_registry:
  "(GetOrCreateSession env sid m w = (Inl e, m', w')
      \<longrightarrow> m' = m \<and> heap w' = heap w \<and> nextRef w' = nextRef w)
   \<and> ((mkdirErr env \<noteq> None \<or> writeErr env \<noteq> None)
        \<and> (sid = [] \<or> (\<forall>r. sessions m sid = Some r \<longrightarrow> \<not> isRunning (heap w r)))
      \<longrightarrow> (\<exists>e1 w1. GetOrCreateSession env sid m w = (Inl e1, m, w1)))"
proof -
  have first: "m' = m \<and> heap w' = heap w \<and> nextRef w' = nextRef w"
    if "GetOrCreateSession env sid m w = (Inl e, m', w')"
  proof -
    from that have "createNewSession env sid m w = (Inl e, m', w')"
      by (auto simp: GetOrCreateSession_def split: option.splits if_splits)
    then show ?thesis
      using createNewSession_fail by blast
  qed
  have second: "\<exists>e1 w1. GetOrCreateSession env sid m w = (Inl e1, m, w1)"
    if a: "(mkdirErr env \<noteq> None \<or> writeErr env \<noteq> None)
        \<and> (sid = [] \<or> (\<forall>r. sessions m sid = Some r \<longrightarrow> \<not> isRunning (heap w r)))"
  proof -
    from a have g: "GetOrCreateSession env sid m w = createNewSession env sid m w"
      by (auto simp: GetOrCreateSession_def split: option.splits)
    from a obtain e1 m1 w1 where c: "createNewSession env sid m w = (Inl e1, m1, w1)"
      using createNewSession_fail_iff [of env sid m w] by blast
    then have "m1 = m" using createNewSession_fail by blast
    with g c show ?thesis by simp
  qed
  from first second show ?thesis by blast
qed

theorem C8_witness:
  "GetOrCreateSession exCreateFail [] exManager emptyWorld
     = (Inl (ErrSessionDir ''permission denied''), exManager, emptyWorld)"
  using C8_failed_creation_keeps_registry [of exCreateFail "[]" exManager emptyWorld
          "ErrSessionDir ''permission denied''" exManager emptyWorld]
  by (simp add: GetOrCreateSession_def createNewSession_def exCreateFail_def)

lemma exWorld_created:
  "GetOrCreateSession exCreate ''s1'' exManager emptyWorld = (Inr 0, exRegistry, exWorld)"
  by (simp add: GetOrCreateSession_def createNewSession_ok exCreate_def exManager_def
      emptyWorld_def exRegistry_def exWorld_def exSession_def Join_def Let_def)

section \<open>Lookup and creation\<close>




section \<open>Execution\<close>

text \<open>
  Claim C6. \<^verbatim>\<open>ExecuteCode\<close> on a session whose \<open>isRunning\<close> is false returns empty
  output and the error "session is no longer running", and the world is the one before
  the call: no script is written, no process is started, the session stays dead. A
  second call, with any code, gives the same.
\<close>

theorem C6_dead_session_fails:
  assumes "\<not> isRunning (heap w r)"
  shows "ExecuteCode env r code w = (([], [], Some ErrNotRunning), w)
         \<and> errText ErrNotRunning = ''session is no longer running''
         \<and> ExecuteCode env2 r code2 (snd (ExecuteCode env r code w))
             = (([], [], Some ErrNotRunning), w)"
  using assms by (simp add: ExecuteCode_def)

theorem C6_witness:
  "\<not> isRunning (heap exDeadWorld 0)
   \<and> ExecuteCode exTimeout 0 ''print(1)'' exDeadWorld = (([], [], Some ErrNotRunning), exDeadWorld)"
proof -
  have dead: "\<not> isRunning (heap exDeadWorld 0)"
    by (simp add: exDeadWorld_def)
  from C6_dead_session_fails [OF dead, of exTimeout "''print(1)''"] dead
  show ?thesis by simp
qed

text \<open>
  Claim C1. When the deadline of the context has passed by the time the interpreter run
  returns, \<^verbatim>\<open>ExecuteCode\<close> on a live session returns empty standard output, empty standard
  error and the deadline error of the context, whatever the process had written before
  it was killed. (The run is reached when the session is live and the script was written.)
\<close>

theorem C1_timeout_returns_no_output:
  assumes "isRunning (heap w r)"
    and "scriptErr env = None"
    and "ctxErr env = Some DeadlineExceeded"
  shows "fst (ExecuteCode env r code w) = ([], [], Some (ErrContext DeadlineExceeded))
         \<and> errText (ErrContext DeadlineExceeded) = ''context deadline exceeded''"
  using assms by (simp add: ExecuteCode_def Let_def)

theorem C1_witness:
  "isRunning (heap exWorld 0) \<and> scriptErr exTimeout = None
   \<and> ctxErr exTimeout = Some DeadlineExceeded \<and> procStdout exTimeout = ''partial''
   \<and> fst (ExecuteCode exTimeout 0 ''while True: pass'' exWorld)
       = ([], [], Some (ErrContext DeadlineExceeded))"
proof -
  have h: "isRunning (heap exWorld 0)" "scriptErr exTimeout = None"
    "ctxErr exTimeout = Some DeadlineExceeded"
    by (simp_all add: exWorld_def exSession_def exTimeout_def)
  have p: "procStdout exTimeout = ''partial''"
    by (simp add: exTimeout_def)
  from C1_timeout_returns_no_output [OF h, of "''while True: pass''"] h p
  show ?thesis by simp
qed


section \<open>The script and the state file\<close>

lemma Sprintf_exec_name:
  "Sprintf q ''exec_%d.py'' [Num n] = ''exec_'' @ showInt n @ ''.py''"
proof -
  have "Sprintf q ''.py'' [] = ''.py''" by simp
  then show ?thesis by simp
qed

lemma tempScript_not_state:
  "Join d (Sprintf q ''exec_%d.py'' [Num n]) \<noteq> Join d ''session_state.py''"
  by (simp add: Sprintf_exec_name Join_def)

lemma ExecuteCode_state_file:
  assumes "statePath (heap w r) = Join (sessionDir (heap w r)) ''session_state.py''"
  shows "files (snd (ExecuteCode env r code w)) (statePath (heap w r)) =
           (if \<not> isRunning (heap w r) \<or> scriptErr env \<noteq> None then files w (statePath (heap w r))
            else case reached env (files w (statePath (heap w r))) of
                   NotStarted \<Rightarrow> files w (statePath (heap w r))
                 | BeforeSnapshot \<Rightarrow> files w (statePath (heap w r))
                 | InSnapshot n \<Rightarrow> Some (take n (snapshotText (bound env)))
                 | Completed \<Rightarrow> Some (snapshotText (bound env)))"
proof -
  let ?t = "Join (sessionDir (heap w r)) (Sprintf (quote env) ''exec_%d.py'' [Num (stamp env)])"
  have ne: "?t \<noteq> statePath (heap w r)"
    using assms tempScript_not_state by simp
  then have ne2: "statePath (heap w r) \<noteq> ?t" by (rule not_sym)
  show ?thesis
    using ne ne2
    by (auto simp: ExecuteCode_def Let_def python3_def WriteFile_def Remove_def
        split: option.splits progress.splits)
qed

lemma ExecuteCode_result:
  assumes "isRunning (heap w r)" and "scriptErr env = None"
  shows "fst (ExecuteCode env r code w) =
           (if ctxErr env = Some DeadlineExceeded then ([], [], Some (ErrContext DeadlineExceeded))
            else (procStdout env, procStderr env, runErr env))"
  using assms by (simp add: ExecuteCode_def Let_def)

lemma ExecuteCode_heap:
  "heap (snd (ExecuteCode env r code w)) r' =
     (if r' = r \<and> isRunning (heap w r) then (heap w r)\<lparr>lastUsed := started env\<rparr>
      else heap w r')"
  by (auto simp: ExecuteCode_def Let_def python3_def WriteFile_def Remove_def
      split: option.splits progress.splits)


lemma exWorld_paths:
  "statePath (heap exWorld 0) = Join (sessionDir (heap exWorld 0)) ''session_state.py''"
  "isRunning (heap exWorld 0)"
  "statePath (heap exWorld 0) = ''/tmp/python-sessions/s1/session_state.py''"
  "files exWorld ''/tmp/python-sessions/s1/session_state.py'' = Some stateHeader"
  by (simp_all add: exWorld_def exSession_def Join_def)

lemma exWorld_reached:
  assumes "execState env = exExec"
  shows "reached env (files exWorld (statePath (heap exWorld 0))) = progress env"
proof -
  have "exExec stateHeader = Returns"
    by (simp add: exExec_def stateHeader_def)
  with assms have "reloadGoesOn env (Some stateHeader)"
    by (simp add: reloadGoesOn_def)
  then show ?thesis
    by (simp only: exWorld_paths(3,4)) (simp add: reached_def)
qed

text \<open>
  Claim C2 fails as stated. A call that times out can change the state file: here the
  process is killed at the deadline just after the snapshot step opened (and so
  truncated) the file. The call returns the deadline error, and the state file, which
  held the header line, is empty.
\<close>

theorem C2_counterexample:
  "fst (ExecuteCode exTimeout 0 ''x = 2'' exWorld) = ([], [], Some (ErrContext DeadlineExceeded))
   \<and> files exWorld ''/tmp/python-sessions/s1/session_state.py''
       = Some ''# Python session state file\<newline>''
   \<and> files (snd (ExecuteCode exTimeout 0 ''x = 2'' exWorld))
         ''/tmp/python-sessions/s1/session_state.py'' = Some []"
proof -
  have a: "fst (ExecuteCode exTimeout 0 ''x = 2'' exWorld)
             = ([], [], Some (ErrContext DeadlineExceeded))"
    by (simp add: ExecuteCode_result exWorld_paths exTimeout_def)
  have b: "files exWorld ''/tmp/python-sessions/s1/session_state.py''
             = Some ''# Python session state file\<newline>''"
    by (simp add: exWorld_paths stateHeader_def)
  have "files (snd (ExecuteCode exTimeout 0 ''x = 2'' exWorld)) (statePath (heap exWorld 0))
          = Some []"
  proof -
    have "reached exTimeout (files exWorld (statePath (heap exWorld 0))) = InSnapshot 0"
      by (simp add: exWorld_reached exTimeout_def)
    then show ?thesis
      by (simp add: ExecuteCode_state_file [OF exWorld_paths(1)] exWorld_paths(2) exTimeout_def)
  qed
  then have c: "files (snd (ExecuteCode exTimeout 0 ''x = 2'' exWorld))
         ''/tmp/python-sessions/s1/session_state.py'' = Some []"
    by (simp only: exWorld_paths(3))
  from a b c show ?thesis by blast
qed

lemma Sprintf_plain:
  "CHR ''%'' \<notin> set xs \<Longrightarrow>
     Sprintf q (xs @ CHR ''%'' # ys) args = xs @ Sprintf q (CHR ''%'' # ys) args"
proof (induction xs)
  case Nil
  then show ?case by simp
next
  case (Cons x xs)
  then show ?case by (cases xs) auto
qed

lemma Sprintf_no_verb:
  "CHR ''%'' \<notin> set xs \<Longrightarrow> Sprintf q xs args = xs"
  by (induction q xs args rule: Sprintf.induct) auto

lemma scriptContent_parts:
  "scriptContent q sp code = reloadBlock q sp @ code @ snapshotBlock q sp"
proof -
  define A :: string
    where "A = ''\<newline># Import the session state\<newline>try:\<newline>    exec(open(''"
  define B :: string
    where "B = '').read())\<newline>except Exception as e:\<newline>    pass  # Ignore errors when loading state\<newline>\<newline># Execute the provided code\<newline>''"
  define C :: string
    where "C = ''\<newline>\<newline># Save important variables to session state\<newline>import inspect, sys\<newline>with open(''"
  define D :: string
    where \<open>D = '', "w") as state_file:\<newline>    state_file.write("# Python session state file'' @ [backslash] @ ''n")\<newline>    for name, value in list(locals().items()):\<newline>        if not name.startswith("_") and name != "state_file" and not inspect.ismodule(value):\<newline>            try:\<newline>                state_file.write("{} = {!r}'' @ [backslash] @ ''n".format(name, value))\<newline>            except:\<newline>                pass\<newline>''\<close>
  have fmt: "scriptFormat
      = A @ CHR ''%'' # CHR ''q'' # B @ CHR ''%'' # CHR ''s'' # C @ CHR ''%'' # CHR ''q'' # D"
    by (simp add: scriptFormat_def A_def B_def C_def D_def)
  have nA: "CHR ''%'' \<notin> set A" by (simp add: A_def)
  have nB: "CHR ''%'' \<notin> set B" by (simp add: B_def)
  have nC: "CHR ''%'' \<notin> set C" by (simp add: C_def)
  have nD: "CHR ''%'' \<notin> set D" by (simp add: D_def backslash_def)
  have "scriptContent q sp code = A @ q sp @ B @ code @ C @ q sp @ D"
    unfolding scriptContent_def fmt
    by (simp add: Sprintf_plain [OF nA] Sprintf_plain [OF nB] Sprintf_plain [OF nC]
        Sprintf_no_verb [OF nD])
  also have "\<dots> = reloadBlock q sp @ code @ snapshotBlock q sp"
    by (simp add: reloadBlock_def snapshotBlock_def A_def B_def C_def D_def)
  finally show ?thesis .
qed

text \<open>
  Claim C2, as the code has it. A call on a dead session, a call whose script could not
  be written, a call for which no process was started, and a call whose interpreter ended
  (by an exception, an exit or the kill at the deadline) before the snapshot step opened
  the state file leave the state file as it was. The snapshot step is the last part of
  the script, after the caller's code; it truncates the state file when it opens it, so
  once it has started the file holds the part of the new snapshot written so far, and the
  whole new snapshot when the script ran to its end, whatever \<^verbatim>\<open>ExecuteCode\<close> then
  returns. How far the process got is the progress the environment gives whenever the
  reload block lets the script go on.
\<close>

theorem C2_state_file_after_call:
  assumes "statePath (heap w r) = Join (sessionDir (heap w r)) ''session_state.py''"
  shows "(\<not> isRunning (heap w r) \<or> scriptErr env \<noteq> None
            \<or> reached env (files w (statePath (heap w r))) = NotStarted
            \<or> reached env (files w (statePath (heap w r))) = BeforeSnapshot
            \<longrightarrow> files (snd (ExecuteCode env r code w)) (statePath (heap w r))
                  = files w (statePath (heap w r)))
         \<and> (isRunning (heap w r) \<and> scriptErr env = None
              \<and> reached env (files w (statePath (heap w r))) = InSnapshot n
            \<longrightarrow> files (snd (ExecuteCode env r code w)) (statePath (heap w r))
                  = Some (take n (snapshotText (bound env))))
         \<and> (isRunning (heap w r) \<and> scriptErr env = None
              \<and> reached env (files w (statePath (heap w r))) = Completed
            \<longrightarrow> files (snd (ExecuteCode env r code w)) (statePath (heap w r))
                  = Some (snapshotText (bound env)))
         \<and> (progress env = BeforeSnapshot
            \<longrightarrow> reached env (files w (statePath (heap w r))) = BeforeSnapshot)
         \<and> (reloadGoesOn env (files w (statePath (heap w r)))
            \<longrightarrow> reached env (files w (statePath (heap w r))) = progress env)
         \<and> scriptContent q (statePath (heap w r)) code
             = reloadBlock q (statePath (heap w r)) @ code @ snapshotBlock q (statePath (heap w r))"
  by (auto simp: ExecuteCode_state_file [OF assms] scriptContent_parts reached_def)

theorem C2_witness:
  "statePath (heap exWorld 0) = Join (sessionDir (heap exWorld 0)) ''session_state.py''
   \<and> progress exNameError = BeforeSnapshot
   \<and> files (snd (ExecuteCode exNameError 0 ''print(y)'' exWorld)) (statePath (heap exWorld 0))
       = Some stateHeader"
proof -
  have p: "progress exNameError = BeforeSnapshot"
    by (simp add: exNameError_def)
  then have q: "reached exNameError (files exWorld (statePath (heap exWorld 0))) = BeforeSnapshot"
    by (simp add: reached_def)
  from C2_state_file_after_call [OF exWorld_paths(1), of exNameError "''print(y)''"] q
  have "files (snd (ExecuteCode exNameError 0 ''print(y)'' exWorld)) (statePath (heap exWorld 0))
          = files exWorld (statePath (heap exWorld 0))"
    by blast
  also have "\<dots> = Some stateHeader"
    by (simp only: exWorld_paths(3,4))
  finally show ?thesis
    using p exWorld_paths(1) by blast
qed

text \<open>
  Claim C3 fails as stated. \<^verbatim>\<open>ExecuteCode\<close> returns the error of \<^verbatim>\<open>cmd.Run\<close> together with a
  non-empty standard error (first part); and where the error is reported only with an empty
  standard error, in the handler's response, the captured standard output is not
  returned (second part).
\<close>

theorem C3_counterexample:
  "fst (ExecuteCode exNameError 0 ''print(y)'' exWorld)
     = ([], ''NameError: name y is not defined'', Some (ErrRun ''exit status 1''))
   \<and> fst (ExecuteCode exExit 0 (Code exRequest) exWorld)
       = (''partial'', [], Some (ErrRun ''exit status 3''))
   \<and> fst (ExecuteHandler exHandlerEnv ''POST'' (Some exRequest) exRegistry exWorld)
       = Json \<lparr>respID = ''s1'', Stdout = [], Stderr = [], Error = ''exit status 3''\<rparr>"
proof -
  have a: "fst (ExecuteCode exNameError 0 ''print(y)'' exWorld)
     = ([], ''NameError: name y is not defined'', Some (ErrRun ''exit status 1''))"
    by (simp add: ExecuteCode_result exWorld_paths(2) exNameError_def)
  have b: "fst (ExecuteCode exExit 0 (Code exRequest) exWorld)
       = (''partial'', [], Some (ErrRun ''exit status 3''))"
    by (simp add: ExecuteCode_result exWorld_paths(2) exExit_def)
  have g: "GetOrCreateSession exCreate2 ''s1'' exRegistry exWorld = (Inr 0, exRegistry, exWorld)"
    by (simp add: GetOrCreateSession_def exRegistry_def exWorld_paths(2))
  obtain w2 where e: "ExecuteCode exExit 0 (Code exRequest) exWorld
       = ((''partial'', [], Some (ErrRun ''exit status 3'')), w2)"
    using b by (cases "ExecuteCode exExit 0 (Code exRequest) exWorld") auto
  have "ID (heap (snd (ExecuteCode exExit 0 (Code exRequest) exWorld)) 0) = ''s1''"
    by (simp add: ExecuteCode_heap exWorld_def exSession_def)
  then have i: "ID (heap w2 0) = ''s1''"
    using e by simp
  have c: "fst (ExecuteHandler exHandlerEnv ''POST'' (Some exRequest) exRegistry exWorld)
       = Json \<lparr>respID = ''s1'', Stdout = [], Stderr = [], Error = ''exit status 3''\<rparr>"
    by (simp add: ExecuteHandler_def exHandlerEnv_def exRequest_def g e [unfolded exRequest_def, simplified] i)
  from a b c show ?thesis by blast
qed

lemma ExecuteHandler_response:
  assumes "GetOrCreateSession (createEnv env) (reqID req) m w = (Inr r, m1, w1)"
    and "ExecuteCode (execEnv env) r (Code req) w1 = ((out, err, e), w2)"
  shows "fst (ExecuteHandler env ''POST'' (Some req) m w) =
           Json (if handlerCtxErr env = Some DeadlineExceeded
                 then \<lparr>respID = ID (heap w2 r), Stdout = [], Stderr = [],
                       Error = ''execution timeout''\<rparr>
                 else if e \<noteq> None \<and> err = []
                 then \<lparr>respID = ID (heap w2 r), Stdout = [], Stderr = [],
                       Error = errText (the e)\<rparr>
                 else \<lparr>respID = ID (heap w2 r), Stdout = out, Stderr = err, Error = []\<rparr>)"
  using assms
  by (auto simp: ExecuteHandler_def sendErrorResponse_def Let_def split: option.splits)

lemma ExecuteHandler_no_session:
  assumes "GetOrCreateSession (createEnv env) (reqID req) m w = (Inl e, m1, w1)"
  shows "fst (ExecuteHandler env ''POST'' (Some req) m w) =
           Json \<lparr>respID = [], Stdout = [], Stderr = [], Error = ''Failed to initialize session''\<rparr>"
  using assms by (simp add: ExecuteHandler_def sendErrorResponse_def)

text \<open>
  Claim C3, as the code has it. When the deadline has not passed, \<^verbatim>\<open>ExecuteCode\<close> returns
  the two streams as captured together with the error of \<^verbatim>\<open>cmd.Run\<close>, which is set for
  every failed run, whatever the standard error holds. It is the handler that reports an
  error only when \<^verbatim>\<open>ExecuteCode\<close> returned one with an empty standard error, and it then
  clears both streams of the response; in every other case without a timeout the response
  carries the two streams as captured and an empty error field.
\<close>

theorem C3_failure_reporting:
  "(isRunning (heap w r) \<and> scriptErr xenv = None \<and> ctxErr xenv \<noteq> Some DeadlineExceeded
      \<longrightarrow> fst (ExecuteCode xenv r code w) = (procStdout xenv, procStderr xenv, runErr xenv))
   \<and> (GetOrCreateSession (createEnv env) (reqID req) m w0 = (Inr r, m1, w1)
        \<and> ExecuteCode (execEnv env) r (Code req) w1 = ((out, err, e), w2)
        \<and> handlerCtxErr env \<noteq> Some DeadlineExceeded
      \<longrightarrow> fst (ExecuteHandler env ''POST'' (Some req) m w0) =
            Json (if e \<noteq> None \<and> err = []
                  then \<lparr>respID = ID (heap w2 r), Stdout = [], Stderr = [],
                        Error = errText (the e)\<rparr>
                  else \<lparr>respID = ID (heap w2 r), Stdout = out, Stderr = err, Error = []\<rparr>))"
  by (simp add: ExecuteCode_result ExecuteHandler_response)

theorem C3_witness:
  "isRunning (heap exWorld 0) \<and> scriptErr exNameError = None
   \<and> ctxErr exNameError \<noteq> Some DeadlineExceeded
   \<and> fst (ExecuteCode exNameError 0 ''print(y)'' exWorld)
       = (procStdout exNameError, procStderr exNameError, runErr exNameError)
   \<and> runErr exNameError \<noteq> None \<and> procStderr exNameError \<noteq> []"
proof -
  have h: "isRunning (heap exWorld 0) \<and> scriptErr exNameError = None
             \<and> ctxErr exNameError \<noteq> Some DeadlineExceeded"
    and k: "runErr exNameError \<noteq> None \<and> procStderr exNameError \<noteq> []"
    by (simp_all add: exWorld_paths(2) exNameError_def)
  from C3_failure_reporting [of exWorld 0 exNameError "''print(y)''"] h
  have "fst (ExecuteCode exNameError 0 ''print(y)'' exWorld)
       = (procStdout exNameError, procStderr exNameError, runErr exNameError)"
    by blast
  with h k show ?thesis by blast
qed

text \<open>
  Claim C10. Every JSON response of the handler with a non-empty error field has empty
  standard output and standard error fields: the error-only responses (no session,
  timeout) carry no output, and when \<^verbatim>\<open>ExecuteCode\<close> returned an error with an empty
  standard error the handler clears the captured standard output. The two other
  responses are the plain bodies of the rejected requests (wrong method, undecodable
  body).
\<close>

theorem C10_error_means_no_output:
  "case fst (ExecuteHandler env httpMethod body m w) of
     Json p \<Rightarrow> Error p \<noteq> [] \<longrightarrow> Stdout p = [] \<and> Stderr p = []
   | Plain status text \<Rightarrow>
       (status = 405 \<and> httpMethod \<noteq> ''POST'')
       \<or> (status = 400 \<and> httpMethod = ''POST'' \<and> body = None)"
proof (cases "httpMethod = ''POST''")
  case False
  then show ?thesis by (simp add: ExecuteHandler_def)
next
  case post: True
  show ?thesis
  proof (cases body)
    case None
    with post show ?thesis by (simp add: ExecuteHandler_def)
  next
    case (Some req)
    obtain res m1 w1 where g: "GetOrCreateSession (createEnv env) (reqID req) m w = (res, m1, w1)"
      by (cases "GetOrCreateSession (createEnv env) (reqID req) m w") auto
    show ?thesis
    proof (cases res)
      case (Inl e)
      with g post Some show ?thesis
        by (simp add: ExecuteHandler_no_session)
    next
      case (Inr r)
      obtain out err e w2 where x: "ExecuteCode (execEnv env) r (Code req) w1 = ((out, err, e), w2)"
        by (cases "ExecuteCode (execEnv env) r (Code req) w1") auto
      from g Inr x post Some show ?thesis
        by (simp add: ExecuteHandler_response)
    qed
  qed
qed

theorem C10_witness:
  "fst (ExecuteHandler exHandlerEnv ''POST'' (Some exRequest) exRegistry exWorld)
     = Json \<lparr>respID = ''s1'', Stdout = [], Stderr = [], Error = ''exit status 3''\<rparr>
   \<and> procStdout (execEnv exHandlerEnv) = ''partial''"
proof -
  have g: "GetOrCreateSession (createEnv exHandlerEnv) (reqID exRequest) exRegistry exWorld
             = (Inr 0, exRegistry, exWorld)"
    by (simp add: GetOrCreateSession_def exRegistry_def exWorld_paths(2) exHandlerEnv_def
        exRequest_def)
  obtain w2 where e: "ExecuteCode (execEnv exHandlerEnv) 0 (Code exRequest) exWorld
       = ((''partial'', [], Some (ErrRun ''exit status 3'')), w2)"
    using ExecuteCode_result [of exWorld 0 exExit "Code exRequest"]
    by (cases "ExecuteCode exExit 0 (Code exRequest) exWorld")
      (auto simp: exWorld_paths(2) exExit_def exHandlerEnv_def)
  have "ID (heap (snd (ExecuteCode (execEnv exHandlerEnv) 0 (Code exRequest) exWorld)) 0)
          = ''s1''"
    by (simp add: ExecuteCode_heap exWorld_def exSession_def)
  then have i: "ID (heap w2 0) = ''s1''"
    using e by simp
  have r: "fst (ExecuteHandler exHandlerEnv ''POST'' (Some exRequest) exRegistry exWorld)
     = Json \<lparr>respID = ''s1'', Stdout = [], Stderr = [], Error = ''exit status 3''\<rparr>"
    using ExecuteHandler_response [OF g e] i by (simp add: exHandlerEnv_def)
  have p: "procStdout (execEnv exHandlerEnv) = ''partial''"
    by (simp add: exHandlerEnv_def exExit_def)
  from C10_error_means_no_output [where env = exHandlerEnv and httpMethod = "''POST''"
      and body = "Some exRequest" and m = exRegistry and w = exWorld] r p
  show ?thesis by simp
qed


section \<open>The composed script\<close>








section \<open>Cleanup and the idle sweep\<close>

lemma Cleanup_heap:
  "heap (Cleanup r w) r' = (if r' = r then (heap w r)\<lparr>isRunning := False\<rparr> else heap w r')"
  by (simp add: Cleanup_def Let_def RemoveAll_def)

lemma Cleanup_nextRef: "nextRef (Cleanup r w) = nextRef w"
  by (simp add: Cleanup_def Let_def RemoveAll_def)

lemma Cleanup_dirs: "dirs (Cleanup r w) \<subseteq> dirs w"
  by (auto simp: Cleanup_def Let_def RemoveAll_def)

lemma Cleanup_locked: "locked (Cleanup r w) = locked w"
  by (simp add: Cleanup_def Let_def RemoveAll_def)

lemma Cleanup_files: "files w p = None \<Longrightarrow> files (Cleanup r w) p = None"
  by (simp add: Cleanup_def Let_def RemoveAll_def)

lemma not_held: "\<forall>q \<in> locked w. \<not> under p q \<Longrightarrow> \<not> held w p"
  by (auto simp: held_def)

lemma Cleanup_removes:
  assumes "isRunning (heap w r)" and "under (sessionDir (heap w r)) p"
    and "\<forall>q \<in> locked w. \<not> under p q"
  shows "files (Cleanup r w) p = None \<and> p \<notin> dirs (Cleanup r w)"
proof -
  let ?w = "w\<lparr>heap := (heap w)(r := (heap w r)\<lparr>isRunning := False\<rparr>)\<rparr>"
  have "\<not> held ?w p"
    using assms(3) by (intro not_held) simp
  with assms(1,2) show ?thesis
    by (simp add: Cleanup_def Let_def RemoveAll_def)
qed

lemma CleanupSessions_map:
  "sessions (fst (CleanupSessions now ks maxAge m w)) k =
     (if k \<in> set ks \<and> (\<exists>r. sessions m k = Some r \<and> Sub now (lastUsed (heap w r)) > maxAge)
      then None else sessions m k)"
proof (induction ks arbitrary: m w k)
  case Nil
  then show ?case by simp
next
  case (Cons k0 ks)
  show ?case
    by (auto simp: Cons.IH Cleanup_heap split: option.splits)
qed

lemma CleanupSessions_baseDir:
  "baseDir (fst (CleanupSessions now ks maxAge m w)) = baseDir m"
  by (induction ks arbitrary: m w) (auto split: option.splits)

lemma CleanupSessions_nextRef:
  "nextRef (snd (CleanupSessions now ks maxAge m w)) = nextRef w"
  by (induction ks arbitrary: m w) (auto simp: Cleanup_nextRef split: option.splits)

lemma CleanupSessions_dirs:
  "dirs (snd (CleanupSessions now ks maxAge m w)) \<subseteq> dirs w"
proof (induction ks arbitrary: m w)
  case Nil
  then show ?case by simp
next
  case (Cons k0 ks)
  show ?case
  proof (cases "sessions m k0")
    case None
    then show ?thesis using Cons.IH by simp
  next
    case (Some r0)
    show ?thesis
    proof (cases "Sub now (lastUsed (heap w r0)) > maxAge")
      case False
      with Some show ?thesis using Cons.IH by simp
    next
      case True
      have "dirs (snd (CleanupSessions now ks maxAge
                (m\<lparr>sessions := (sessions m)(k0 := None)\<rparr>) (Cleanup r0 w)))
              \<subseteq> dirs (Cleanup r0 w)"
        by (rule Cons.IH)
      also have "\<dots> \<subseteq> dirs w" by (rule Cleanup_dirs)
      finally show ?thesis using Some True by simp
    qed
  qed
qed

lemma CleanupSessions_heap:
  "heap (snd (CleanupSessions now ks maxAge m w)) r =
     (if (\<exists>k \<in> set ks. sessions m k = Some r) \<and> Sub now (lastUsed (heap w r)) > maxAge
      then (heap w r)\<lparr>isRunning := False\<rparr> else heap w r)"
proof (induction ks arbitrary: m w r)
  case Nil
  then show ?case by simp
next
  case (Cons k0 ks)
  show ?case
  proof (cases "sessions m k0")
    case None
    then show ?thesis by (auto simp: Cons.IH)
  next
    case (Some r0)
    show ?thesis
    proof (cases "Sub now (lastUsed (heap w r0)) > maxAge")
      case False
      with Some show ?thesis by (auto simp: Cons.IH)
    next
      case True
      with Some show ?thesis
        by (auto simp: Cons.IH Cleanup_heap)
    qed
  qed
qed

lemma CleanupSessions_locked:
  "locked (snd (CleanupSessions now ks maxAge m w)) = locked w"
  by (induction ks arbitrary: m w) (auto simp: Cleanup_locked split: option.splits)

lemma CleanupSessions_files:
  "files w p = None \<Longrightarrow> files (snd (CleanupSessions now ks maxAge m w)) p = None"
  by (induction ks arbitrary: m w) (auto simp: Cleanup_files split: option.splits)

lemma CleanupSessions_removes:
  "k \<in> set ks \<Longrightarrow> sessions m k = Some r \<Longrightarrow> Sub now (lastUsed (heap w r)) > maxAge \<Longrightarrow>
     isRunning (heap w r) \<Longrightarrow> under (sessionDir (heap w r)) p \<Longrightarrow>
     \<forall>q \<in> locked w. \<not> under p q \<Longrightarrow>
     files (snd (CleanupSessions now ks maxAge m w)) p = None
     \<and> p \<notin> dirs (snd (CleanupSessions now ks maxAge m w))"
proof (induction ks arbitrary: m w)
  case Nil
  then show ?case by simp
next
  case (Cons k0 ks)
  show ?case
  proof (cases "sessions m k0")
    case None
    with Cons.prems have "k \<in> set ks" by auto
    with None Cons.prems Cons.IH [of m w] show ?thesis by simp
  next
    case (Some r0)
    show ?thesis
    proof (cases "Sub now (lastUsed (heap w r0)) > maxAge")
      case False
      with Some Cons.prems have "k \<in> set ks" by auto
      with Some False Cons.prems Cons.IH [of m w] show ?thesis by simp
    next
      case True
      let ?m1 = "m\<lparr>sessions := (sessions m)(k0 := None)\<rparr>"
      let ?w1 = "Cleanup r0 w"
      have res: "CleanupSessions now (k0 # ks) maxAge m w = CleanupSessions now ks maxAge ?m1 ?w1"
        using Some True by simp
      show ?thesis
      proof (cases "r0 = r")
        case True
        then have gone: "files ?w1 p = None \<and> p \<notin> dirs ?w1"
          using Cons.prems Cleanup_removes by simp
        then have "files (snd (CleanupSessions now ks maxAge ?m1 ?w1)) p = None"
          by (simp add: CleanupSessions_files)
        moreover have "p \<notin> dirs (snd (CleanupSessions now ks maxAge ?m1 ?w1))"
          using gone CleanupSessions_dirs [of now ks maxAge ?m1 ?w1] by auto
        ultimately show ?thesis
          using res by simp
      next
        case False
        with Some Cons.prems have kk: "k \<noteq> k0" "k \<in> set ks" by auto
        have "files (snd (CleanupSessions now ks maxAge ?m1 ?w1)) p = None
              \<and> p \<notin> dirs (snd (CleanupSessions now ks maxAge ?m1 ?w1))"
        proof (rule Cons.IH)
          show "k \<in> set ks" by (rule kk)
          show "sessions ?m1 k = Some r" using kk Cons.prems by simp
          show "Sub now (lastUsed (heap ?w1 r)) > maxAge"
            using False Cons.prems by (simp add: Cleanup_heap)
          show "isRunning (heap ?w1 r)"
            using False Cons.prems by (simp add: Cleanup_heap)
          show "under (sessionDir (heap ?w1 r)) p"
            using False Cons.prems by (simp add: Cleanup_heap)
          show "\<forall>q \<in> locked ?w1. \<not> under p q"
            using Cons.prems by (simp add: Cleanup_locked)
        qed
        then show ?thesis
          using res by simp
      qed
    qed
  qed
qed

lemma Sub_gt:
  assumes "minDuration \<le> maxAge" and "maxAge < maxDuration"
  shows "Sub now t > maxAge \<longleftrightarrow> t < now - maxAge"
  using assms by (auto simp: Sub_def)

text \<open>
  Claim C5 fails as stated, in two places. The idle time is \<^verbatim>\<open>now.Sub(lastUsed)\<close>, which
  is never more than the largest duration: with that value for \<open>maxAge\<close>, a session
  whose \<open>lastUsed\<close> is the zero time precedes \<open>now - maxAge\<close> and yet stays in the map,
  live. And \<^verbatim>\<open>Cleanup\<close> discards the error of \<^verbatim>\<open>os.RemoveAll\<close>: a session whose state file
  cannot be removed is reclaimed (dead, absent from the map) while its directory and its
  state file are still there.
\<close>

theorem C5_counterexample:
  "lastUsed (heap exOldWorld 0) < 1700000000000000000 - 9223372036854775807
   \<and> sessions exRegistry ''s1'' = Some 0
   \<and> sessions (fst (CleanupSessions 1700000000000000000 [''s1''] 9223372036854775807
                      exRegistry exOldWorld)) ''s1'' = Some 0
   \<and> isRunning (heap (snd (CleanupSessions 1700000000000000000 [''s1''] 9223372036854775807
                              exRegistry exOldWorld)) 0)
   \<and> lastUsed (heap exLockedWorld 0) < 1000 - 500
   \<and> sessions (fst (CleanupSessions 1000 [''s1''] 500 exRegistry exLockedWorld)) ''s1'' = None
   \<and> \<not> isRunning (heap (snd (CleanupSessions 1000 [''s1''] 500 exRegistry exLockedWorld)) 0)
   \<and> ''/tmp/python-sessions/s1''
        \<in> dirs (snd (CleanupSessions 1000 [''s1''] 500 exRegistry exLockedWorld))
   \<and> files (snd (CleanupSessions 1000 [''s1''] 500 exRegistry exLockedWorld))
        ''/tmp/python-sessions/s1/session_state.py'' = Some stateHeader"
proof -
  have old: "lastUsed (heap exOldWorld 0) < 1700000000000000000 - 9223372036854775807
     \<and> sessions exRegistry ''s1'' = Some 0
     \<and> sessions (fst (CleanupSessions 1700000000000000000 [''s1''] 9223372036854775807
                      exRegistry exOldWorld)) ''s1'' = Some 0
     \<and> isRunning (heap (snd (CleanupSessions 1700000000000000000 [''s1''] 9223372036854775807
                              exRegistry exOldWorld)) 0)"
    by (simp add: exOldWorld_def exWorld_def exSession_def exRegistry_def Sub_def
        maxDuration_def minDuration_def)
  have h: "held (exLockedWorld\<lparr>heap := (heap exLockedWorld)(0 := (heap exLockedWorld 0)\<lparr>isRunning := False\<rparr>)\<rparr>) p"
    if "p = ''/tmp/python-sessions/s1'' \<or> p = ''/tmp/python-sessions/s1/session_state.py''" for p
    using that
    by (auto simp: held_def exLockedWorld_def exWorld_def under_def)
  have locked: "lastUsed (heap exLockedWorld 0) < 1000 - 500
     \<and> sessions (fst (CleanupSessions 1000 [''s1''] 500 exRegistry exLockedWorld)) ''s1'' = None
     \<and> \<not> isRunning (heap (snd (CleanupSessions 1000 [''s1''] 500 exRegistry exLockedWorld)) 0)
     \<and> ''/tmp/python-sessions/s1''
          \<in> dirs (snd (CleanupSessions 1000 [''s1''] 500 exRegistry exLockedWorld))
     \<and> files (snd (CleanupSessions 1000 [''s1''] 500 exRegistry exLockedWorld))
          ''/tmp/python-sessions/s1/session_state.py'' = Some stateHeader"
    using h
    by (simp add: exRegistry_def Sub_def maxDuration_def minDuration_def Cleanup_def Let_def
        RemoveAll_def)
      (simp add: exLockedWorld_def exWorld_def exSession_def)
  from old locked show ?thesis by blast
qed

text \<open>
  Claim C5, as the code has it. \<^verbatim>\<open>CleanupSessions\<close> ranges over every key of the map.
  After it, every registered session for which \<^verbatim>\<open>now.Sub(lastUsed)\<close> exceeds \<open>maxAge\<close>
  is absent from the map and dead, and for each one that was still live
  \<^verbatim>\<open>os.RemoveAll\<close> ran on its directory: every path under the directory, the state file
  and the directory itself among them, is gone unless it could not be removed (it is
  locked, or holds something locked). Every other registered session is still in the
  map, and unchanged. A later \<^verbatim>\<open>GetOrCreateSession\<close> with a reclaimed id, when the storage
  can be created, gives a new session (a reference that was not allocated before), live,
  registered under the id, whose state file holds the header only; the reclaimed session
  stays dead. For \<open>maxAge\<close> below the largest duration, \<^verbatim>\<open>now.Sub(lastUsed)\<close> exceeds
  \<open>maxAge\<close> exactly when \<open>lastUsed\<close> precedes \<open>now - maxAge\<close>.
\<close>

theorem C5_idle_sweep:
  assumes "set order = dom (sessions m)"
    and "\<forall>k r. sessions m k = Some r \<longrightarrow> r < nextRef w"
    and "CleanupSessions now order maxAge m w = (m', w')"
  shows "(\<forall>k r. sessions m k = Some r \<and> Sub now (lastUsed (heap w r)) > maxAge
            \<longrightarrow> sessions m' k = None \<and> \<not> isRunning (heap w' r)
                \<and> (isRunning (heap w r)
                    \<longrightarrow> (\<forall>p. under (sessionDir (heap w r)) p \<and> (\<forall>q \<in> locked w. \<not> under p q)
                            \<longrightarrow> files w' p = None \<and> p \<notin> dirs w')))
         \<and> (\<forall>k r. sessions m k = Some r \<and> \<not> Sub now (lastUsed (heap w r)) > maxAge
            \<longrightarrow> sessions m' k = Some r \<and> heap w' r = heap w r)
         \<and> (\<forall>k r env. sessions m k = Some r \<and> Sub now (lastUsed (heap w r)) > maxAge
              \<and> k \<noteq> [] \<and> mkdirErr env = None \<and> writeErr env = None
            \<longrightarrow> (\<exists>m2 w2. GetOrCreateSession env k m' w' = (Inr (nextRef w), m2, w2)
                   \<and> nextRef w \<noteq> r
                   \<and> sessions m2 k = Some (nextRef w)
                   \<and> heap w2 (nextRef w) =
                       \<lparr>ID = k, sessionDir = Join (baseDir m) k,
                        statePath = Join (Join (baseDir m) k) ''session_state.py'',
                        lastUsed = created env, isRunning = True\<rparr>
                   \<and> files w2 (Join (Join (baseDir m) k) ''session_state.py'')
                       = Some stateHeader
                   \<and> \<not> isRunning (heap w2 r)))
         \<and> (\<forall>t. minDuration \<le> maxAge \<and> maxAge < maxDuration
            \<longrightarrow> (Sub now t > maxAge \<longleftrightarrow> t < now - maxAge))"
proof -
  from assms(3) have m': "m' = fst (CleanupSessions now order maxAge m w)"
    and w': "w' = snd (CleanupSessions now order maxAge m w)"
    by simp_all
  have key: "k \<in> set order" if "sessions m k = Some r" for k r
    using that assms(1) by auto
  have idle: "sessions m' k = None \<and> \<not> isRunning (heap w' r)
                \<and> (isRunning (heap w r)
                    \<longrightarrow> (\<forall>p. under (sessionDir (heap w r)) p \<and> (\<forall>q \<in> locked w. \<not> under p q)
                            \<longrightarrow> files w' p = None \<and> p \<notin> dirs w'))"
    if "sessions m k = Some r \<and> Sub now (lastUsed (heap w r)) > maxAge" for k r
  proof -
    from that have s: "sessions m k = Some r" and i: "Sub now (lastUsed (heap w r)) > maxAge"
      by auto
    have a: "sessions m' k = None"
      using s i key [OF s] by (simp add: m' CleanupSessions_map)
    have b: "\<not> isRunning (heap w' r)"
      using s i key [OF s] by (auto simp: w' CleanupSessions_heap)
    have c: "files w' p = None \<and> p \<notin> dirs w'"
      if "isRunning (heap w r)" "under (sessionDir (heap w r)) p" "\<forall>q \<in> locked w. \<not> under p q"
      for p
      unfolding w' using key [OF s] s i that by (rule CleanupSessions_removes)
    from a b c show ?thesis by blast
  qed
  have kept: "sessions m' k = Some r \<and> heap w' r = heap w r"
    if "sessions m k = Some r \<and> \<not> Sub now (lastUsed (heap w r)) > maxAge" for k r
  proof -
    from that have s: "sessions m k = Some r" and i: "\<not> Sub now (lastUsed (heap w r)) > maxAge"
      by auto
    show ?thesis
      using s i by (simp add: m' w' CleanupSessions_map CleanupSessions_heap)
  qed
  have again: "\<exists>m2 w2. GetOrCreateSession env k m' w' = (Inr (nextRef w), m2, w2)
                   \<and> nextRef w \<noteq> r
                   \<and> sessions m2 k = Some (nextRef w)
                   \<and> heap w2 (nextRef w) =
                       \<lparr>ID = k, sessionDir = Join (baseDir m) k,
                        statePath = Join (Join (baseDir m) k) ''session_state.py'',
                        lastUsed = created env, isRunning = True\<rparr>
                   \<and> files w2 (Join (Join (baseDir m) k) ''session_state.py'')
                       = Some stateHeader
                   \<and> \<not> isRunning (heap w2 r)"
    if h: "sessions m k = Some r \<and> Sub now (lastUsed (heap w r)) > maxAge
              \<and> k \<noteq> [] \<and> mkdirErr env = None \<and> writeErr env = None" for k r env
  proof -
    from h idle [of k r] have gone: "sessions m' k = None" and dead: "\<not> isRunning (heap w' r)"
      by auto
    from h assms(2) have old: "r < nextRef w" by blast
    have n: "nextRef w' = nextRef w"
      by (simp add: w' CleanupSessions_nextRef)
    have b: "baseDir m' = baseDir m"
      by (simp add: m' CleanupSessions_baseDir)
    have "GetOrCreateSession env k m' w' = createNewSession env k m' w'"
      using gone by (simp add: GetOrCreateSession_def)
    then show ?thesis
      using h old dead n b by (simp add: createNewSession_ok Let_def)
  qed
  from idle kept again Sub_gt show ?thesis by blast
qed

theorem C5_witness:
  "set [''s1''] = dom (sessions exRegistry)
   \<and> sessions exRegistry ''s1'' = Some 0
   \<and> Sub 1000 (lastUsed (heap exWorld 0)) > 500
   \<and> lastUsed (heap exWorld 0) < 1000 - 500
   \<and> isRunning (heap exWorld 0)
   \<and> locked exWorld = {}
   \<and> sessions (fst (CleanupSessions 1000 [''s1''] 500 exRegistry exWorld)) ''s1'' = None
   \<and> \<not> isRunning (heap (snd (CleanupSessions 1000 [''s1''] 500 exRegistry exWorld)) 0)
   \<and> sessionDir (heap exWorld 0)
        \<notin> dirs (snd (CleanupSessions 1000 [''s1''] 500 exRegistry exWorld))
   \<and> files (snd (CleanupSessions 1000 [''s1''] 500 exRegistry exWorld))
        (statePath (heap exWorld 0)) = None"
proof -
  obtain m' w' where run: "CleanupSessions 1000 [''s1''] 500 exRegistry exWorld = (m', w')"
    by (cases "CleanupSessions 1000 [''s1''] 500 exRegistry exWorld") auto
  have keys: "set [''s1''] = dom (sessions exRegistry)"
    by (simp add: exRegistry_def)
  have refs: "\<forall>k r. sessions exRegistry k = Some r \<longrightarrow> r < nextRef exWorld"
    by (simp add: exRegistry_def exWorld_def)
  have s: "sessions exRegistry ''s1'' = Some 0"
    by (simp add: exRegistry_def)
  have i: "Sub 1000 (lastUsed (heap exWorld 0)) > 500"
    and i2: "lastUsed (heap exWorld 0) < 1000 - 500"
    and l: "isRunning (heap exWorld 0)"
    and nl: "locked exWorld = {}"
    by (simp_all add: exWorld_def exSession_def Sub_def maxDuration_def minDuration_def)
  have u: "under (sessionDir (heap exWorld 0)) (sessionDir (heap exWorld 0))"
    "under (sessionDir (heap exWorld 0)) (statePath (heap exWorld 0))"
    by (simp_all add: under_def exWorld_def exSession_def)
  have free: "\<forall>q \<in> locked exWorld. \<not> under p q" for p
    by (simp add: nl)
  from C5_idle_sweep [OF keys refs run] s i l u free
  have "sessions m' ''s1'' = None \<and> \<not> isRunning (heap w' 0)
          \<and> sessionDir (heap exWorld 0) \<notin> dirs w'
          \<and> files w' (statePath (heap exWorld 0)) = None"
    by blast
  with keys s i i2 l nl run show ?thesis by simp
qed


section \<open>The sessions of the map\<close>














end
